theory Spec2Isabelle
  imports Main "HOL-Library.Word"
begin

unbundle bit_operations_syntax

section \<open>Bytes, buffers and keys\<close>

text \<open>
  The scripts of \<^verbatim>\<open>src/client-lib\<close> are straight-line TypeScript over three external
  libraries: \<^verbatim>\<open>@solana/web3.js\<close> (keys, instructions, address derivation),
  \<^verbatim>\<open>borsh\<close> (the payload encoding) and Node's \<^verbatim>\<open>Buffer\<close>. A buffer is a list of bytes.
  An identifier is a \<open>string\<close> whose characters stand for the bytes of its UTF-8 encoding,
  which is what both \<^verbatim>\<open>Buffer.from(id)\<close> and borsh's string encoding produce.
\<close>

type_synonym byte = "8 word"

definition byte_of_char :: "char \<Rightarrow> byte" where
  "byte_of_char c = of_nat (of_char c)"

definition char_of_byte :: "byte \<Rightarrow> char" where
  "char_of_byte b = char_of (unat b)"

text \<open>\<^verbatim>\<open>Buffer.from(id)\<close>: the bytes of the string.\<close>

definition Buffer_from :: "string \<Rightarrow> byte list" where
  "Buffer_from s = map byte_of_char s"

text \<open>A public key is its 32-byte buffer; \<^verbatim>\<open>toBuffer()\<close> reads it.\<close>

datatype PublicKey = PublicKey (toBuffer: "byte list")

text \<open>
  \<^verbatim>\<open>const programId = new PublicKey("D1JKf9t3tEBzP7jES8bUzCQdLSYSqfcJ2S558AbQruJm")\<close>,
  the same line in all three scripts. The bytes are the base-58 string read as a big-endian
  number of 32 bytes.
\<close>

definition programId :: PublicKey where
  "programId = PublicKey
     [178, 95, 212, 44, 220, 2, 73, 65, 214, 174, 204, 40, 149, 122, 79, 94,
      205, 229, 12, 111, 135, 44, 53, 132, 180, 199, 140, 252, 166, 21, 70, 110]"

text \<open>
  \<^verbatim>\<open>SystemProgram.programId\<close>, the library's constant
  \<^verbatim>\<open>11111111111111111111111111111111\<close>: 32 zero bytes.
\<close>

definition SystemProgram_programId :: PublicKey where
  "SystemProgram_programId = PublicKey (replicate 32 0)"

record Keypair =
  publicKey :: PublicKey
  secretKey :: "byte list"

text \<open>An entry of an instruction's \<^verbatim>\<open>keys\<close> array.\<close>

record AccountMeta =
  pubkey :: PublicKey
  isSigner :: bool
  isWritable :: bool

text \<open>
  The object given to \<^verbatim>\<open>new TransactionInstruction\<close>. The field \<^verbatim>\<open>programId\<close> is
  \<open>instr_programId\<close> here, the name \<open>programId\<close> being the scripts' constant.
\<close>

record TransactionInstruction =
  keys :: "AccountMeta list"
  instr_programId :: PublicKey
  data :: "byte list"

text \<open>
  What a script hands to \<^verbatim>\<open>sendAndConfirmTransaction(connection, transaction, signers)\<close>:
  the instructions added to the transaction and the array of signing keypairs.
\<close>

record submission =
  transaction :: "TransactionInstruction list"
  signers :: "Keypair list"

section \<open>The payload: borsh over \<^verbatim>\<open>echoSchema\<close>\<close>

text \<open>
  \<^verbatim>\<open>const echoSchema = { struct: { variant: 'u8', id: 'string', number: 'u64' } }\<close>.
  The record has the three fields with the schema's types (the field \<^verbatim>\<open>id\<close> is \<open>id_str\<close>,
  \<open>id\<close> being HOL's identity function).
\<close>

record echo =
  variant :: "8 word"
  id_str :: string
  number :: "64 word"

text \<open>
  Modelled from the spec: \<^verbatim>\<open>borsh.serialize\<close> is a function of the external borsh
  library, which is not among the sources. The spec (4.1, 6) gives the payload as a one-byte
  discriminant, a length-prefixed string and a fixed-width 64-bit unsigned integer, in that
  order. The widths are borsh's for the schema's type names: \<^verbatim>\<open>u8\<close> is one byte,
  \<^verbatim>\<open>string\<close> is a little-endian \<^verbatim>\<open>u32\<close> byte count followed by the UTF-8 bytes,
  \<^verbatim>\<open>u64\<close> is eight bytes, little-endian; a struct is its fields in schema order.
\<close>

definition encode_u8 :: "8 word \<Rightarrow> byte list" where
  "encode_u8 v = [v]"

definition encode_u32 :: "32 word \<Rightarrow> byte list" where
  "encode_u32 v = map (\<lambda>i. ucast (drop_bit (8 * i) v)) [0..<4]"

definition encode_u64 :: "64 word \<Rightarrow> byte list" where
  "encode_u64 v = map (\<lambda>i. ucast (drop_bit (8 * i) v)) [0..<8]"

definition encode_string :: "string \<Rightarrow> byte list" where
  "encode_string s =
     (let utf8Bytes = map byte_of_char s
      in encode_u32 (of_nat (length utf8Bytes)) @ utf8Bytes)"

definition serialize :: "echo \<Rightarrow> byte list" where
  "serialize v = encode_u8 (variant v) @ encode_string (id_str v) @ encode_u64 (number v)"

text \<open>
  Modelled from the spec: the scripts contain no decoder; the spec (8) speaks of a decoder
  matching the layout of 4.1. This one reads the tag, the four-byte count, that many bytes
  of identifier, and then wants exactly the eight bytes of the number.
\<close>

definition decode_u32 :: "byte list \<Rightarrow> 32 word" where
  "decode_u32 bs = foldr (\<lambda>b acc. ucast b OR push_bit 8 acc) bs 0"

definition decode_u64 :: "byte list \<Rightarrow> 64 word" where
  "decode_u64 bs = foldr (\<lambda>b acc. ucast b OR push_bit 8 acc) bs 0"

definition deserialize :: "byte list \<Rightarrow> echo option" where
  "deserialize bs =
     (case bs of
        [] \<Rightarrow> None
      | v # r1 \<Rightarrow>
          if length r1 < 4 then None
          else
            let n = unat (decode_u32 (take 4 r1)); r2 = drop 4 r1 in
            if length r2 < n then None
            else
              let r3 = drop n r2 in
              if length r3 \<noteq> 8 then None
              else Some \<lparr>variant = v, id_str = map char_of_byte (take n r2),
                         number = decode_u64 r3\<rparr>)"

text \<open>
  The layout in the spec's words (4.1): a one-byte operation discriminant, followed by a
  length-prefixed string, followed by a fixed-width 64-bit unsigned integer, read off a byte
  string by position. It is stated apart from \<open>serialize\<close>, to compare the two.
\<close>

definition fixed_layout :: "8 word \<Rightarrow> string \<Rightarrow> 64 word \<Rightarrow> byte list \<Rightarrow> bool" where
  "fixed_layout tag ident num bs \<longleftrightarrow>
     length bs = 1 + 4 + length ident + 8
     \<and> take 1 bs = [tag]
     \<and> take 4 (drop 1 bs) = encode_u32 (of_nat (length ident))
     \<and> take (length ident) (drop 5 bs) = Buffer_from ident
     \<and> drop (5 + length ident) bs = encode_u64 num"

section \<open>Address derivation\<close>

text \<open>
  \<^verbatim>\<open>PublicKey.findProgramAddressSync(seeds, programId)\<close> belongs to the external library.
  The scripts are modelled over it as a parameter: any function from the seed buffers and
  the program's key to the pair of address and bump seed that the library returns, or
  \<open>None\<close> where the library throws (the scripts catch nothing, so they stop there).
\<close>

type_synonym findProgramAddressSync =
  "byte list list \<Rightarrow> PublicKey \<Rightarrow> (PublicKey \<times> nat) option"

text \<open>
  Modelled from the spec: the library's derivation is not among the sources. The spec (4.1)
  describes it as a deterministic, seeded hashing scheme over the concatenation of the
  initiator's address bytes, the counterparty's address bytes and the identifier's bytes,
  plus the target program's address. The hashing scheme \<open>H\<close> itself stays a parameter.
\<close>

definition findProgramAddressSync_spec ::
    "(byte list \<Rightarrow> PublicKey \<times> nat) \<Rightarrow> findProgramAddressSync" where
  "findProgramAddressSync_spec H seeds prog = Some (H (concat seeds @ toBuffer prog))"

section \<open>The scripts\<close>

text \<open>
  Each script is modelled from the point where its arguments are loaded: the two keypairs
  (\<^verbatim>\<open>getKeypairFromEnvironment(process.argv[2])\<close>, \<^verbatim>\<open>...argv[3]\<close>), the identifier
  (\<^verbatim>\<open>process.argv[4]\<close>) and, in one script, the quantity. Three scripts build their
  instruction inline; the others call \<^verbatim>\<open>./contract-client\<close>, which is not among the sources.
\<close>

subsection \<open>\<^verbatim>\<open>src/client-lib/increment-worker.ts\<close>, lines 1 to 75\<close>

definition increment_worker_pda_contract ::
    "findProgramAddressSync \<Rightarrow> Keypair \<Rightarrow> Keypair \<Rightarrow> string \<Rightarrow> PublicKey option" where
  "increment_worker_pda_contract fpa senderKeypair workerKeypair ident =
     map_option fst
       (fpa [toBuffer (publicKey senderKeypair),
             toBuffer (publicKey workerKeypair),
             Buffer_from ident]
            programId)"

definition increment_worker_instructionData :: "string \<Rightarrow> byte list" where
  "increment_worker_instructionData ident =
     serialize \<lparr>variant = 4, id_str = ident, number = 0\<rparr>"

definition increment_worker_instruction ::
    "findProgramAddressSync \<Rightarrow> Keypair \<Rightarrow> Keypair \<Rightarrow> string \<Rightarrow> TransactionInstruction option" where
  "increment_worker_instruction fpa senderKeypair workerKeypair ident =
     map_option
       (\<lambda>pda_contract.
          \<lparr>keys =
             [\<lparr>pubkey = publicKey senderKeypair, isSigner = True, isWritable = True\<rparr>,
              \<lparr>pubkey = publicKey workerKeypair, isSigner = False, isWritable = True\<rparr>,
              \<lparr>pubkey = pda_contract, isSigner = False, isWritable = True\<rparr>,
              \<lparr>pubkey = SystemProgram_programId, isSigner = False, isWritable = False\<rparr>],
           instr_programId = programId,
           data = increment_worker_instructionData ident\<rparr>)
       (increment_worker_pda_contract fpa senderKeypair workerKeypair ident)"

definition increment_worker_submit ::
    "findProgramAddressSync \<Rightarrow> Keypair \<Rightarrow> Keypair \<Rightarrow> string \<Rightarrow> submission option" where
  "increment_worker_submit fpa senderKeypair workerKeypair ident =
     map_option
       (\<lambda>instruction. \<lparr>transaction = [instruction], signers = [senderKeypair]\<rparr>)
       (increment_worker_instruction fpa senderKeypair workerKeypair ident)"

subsection \<open>The second script of \<^verbatim>\<open>src/client-lib/increment-worker.ts\<close>, lines 76 to 153\<close>

text \<open>
  The script with a quantity (\<^verbatim>\<open>parseInt(process.argv[5])\<close>) and tag 2. The quantity is
  taken as the 64-bit number that the payload carries.
\<close>

definition quantity_pda ::
    "findProgramAddressSync \<Rightarrow> Keypair \<Rightarrow> Keypair \<Rightarrow> string \<Rightarrow> PublicKey option" where
  "quantity_pda fpa senderKeypair workerKeypair ident =
     map_option fst
       (fpa [toBuffer (publicKey senderKeypair),
             toBuffer (publicKey workerKeypair),
             Buffer_from ident]
            programId)"

definition quantity_instructionData :: "string \<Rightarrow> 64 word \<Rightarrow> byte list" where
  "quantity_instructionData ident quantity =
     serialize \<lparr>variant = 2, id_str = ident, number = quantity\<rparr>"

definition quantity_instruction ::
    "findProgramAddressSync \<Rightarrow> Keypair \<Rightarrow> Keypair \<Rightarrow> string \<Rightarrow> 64 word
      \<Rightarrow> TransactionInstruction option" where
  "quantity_instruction fpa senderKeypair workerKeypair ident quantity =
     map_option
       (\<lambda>pda.
          \<lparr>keys =
             [\<lparr>pubkey = publicKey senderKeypair, isSigner = True, isWritable = True\<rparr>,
              \<lparr>pubkey = publicKey workerKeypair, isSigner = False, isWritable = False\<rparr>,
              \<lparr>pubkey = pda, isSigner = False, isWritable = True\<rparr>,
              \<lparr>pubkey = SystemProgram_programId, isSigner = False, isWritable = False\<rparr>],
           instr_programId = programId,
           data = quantity_instructionData ident quantity\<rparr>)
       (quantity_pda fpa senderKeypair workerKeypair ident)"

definition quantity_submit ::
    "findProgramAddressSync \<Rightarrow> Keypair \<Rightarrow> Keypair \<Rightarrow> string \<Rightarrow> 64 word
      \<Rightarrow> submission option" where
  "quantity_submit fpa senderKeypair workerKeypair ident quantity =
     map_option
       (\<lambda>instruction. \<lparr>transaction = [instruction], signers = [senderKeypair]\<rparr>)
       (quantity_instruction fpa senderKeypair workerKeypair ident quantity)"

subsection \<open>\<^verbatim>\<open>src/unnamed/part_001\<close>\<close>

definition part_001_pda ::
    "findProgramAddressSync \<Rightarrow> Keypair \<Rightarrow> Keypair \<Rightarrow> string \<Rightarrow> PublicKey option" where
  "part_001_pda fpa senderKeypair workerKeypair ident =
     map_option fst
       (fpa [toBuffer (publicKey senderKeypair),
             toBuffer (publicKey workerKeypair),
             Buffer_from ident]
            programId)"

definition part_001_instructionData :: "string \<Rightarrow> byte list" where
  "part_001_instructionData ident =
     serialize \<lparr>variant = 3, id_str = ident, number = 0\<rparr>"

definition part_001_instruction ::
    "findProgramAddressSync \<Rightarrow> Keypair \<Rightarrow> Keypair \<Rightarrow> string \<Rightarrow> TransactionInstruction option" where
  "part_001_instruction fpa senderKeypair workerKeypair ident =
     map_option
       (\<lambda>pda.
          \<lparr>keys =
             [\<lparr>pubkey = publicKey senderKeypair, isSigner = True, isWritable = True\<rparr>,
              \<lparr>pubkey = publicKey workerKeypair, isSigner = False, isWritable = False\<rparr>,
              \<lparr>pubkey = pda, isSigner = False, isWritable = True\<rparr>],
           instr_programId = programId,
           data = part_001_instructionData ident\<rparr>)
       (part_001_pda fpa senderKeypair workerKeypair ident)"

definition part_001_submit ::
    "findProgramAddressSync \<Rightarrow> Keypair \<Rightarrow> Keypair \<Rightarrow> string \<Rightarrow> submission option" where
  "part_001_submit fpa senderKeypair workerKeypair ident =
     map_option
       (\<lambda>instruction. \<lparr>transaction = [instruction], signers = [senderKeypair]\<rparr>)
       (part_001_instruction fpa senderKeypair workerKeypair ident)"

subsection \<open>\<^verbatim>\<open>src/client-lib/create-contract.ts\<close> and \<^verbatim>\<open>src/unnamed/part_002\<close>\<close>

text \<open>
  These two scripts take their instruction from \<^verbatim>\<open>createContract\<close> and
  \<^verbatim>\<open>incrementStep\<close> of \<^verbatim>\<open>./contract-client\<close>. That module is not part of the sources,
  so the builder is a parameter; what the scripts themselves do is to put its instruction
  in a transaction and to sign with \<^verbatim>\<open>[senderKeypair]\<close>.
\<close>

definition create_contract_submit ::
    "(PublicKey \<Rightarrow> PublicKey \<Rightarrow> string \<Rightarrow> 64 word \<Rightarrow> TransactionInstruction option)
      \<Rightarrow> Keypair \<Rightarrow> Keypair \<Rightarrow> string \<Rightarrow> 64 word \<Rightarrow> submission option" where
  "create_contract_submit createContract senderKeypair workerKeypair ident quantity =
     map_option
       (\<lambda>instruction. \<lparr>transaction = [instruction], signers = [senderKeypair]\<rparr>)
       (createContract (publicKey senderKeypair) (publicKey workerKeypair) ident quantity)"

definition part_002_submit ::
    "(PublicKey \<Rightarrow> PublicKey \<Rightarrow> string \<Rightarrow> TransactionInstruction option)
      \<Rightarrow> Keypair \<Rightarrow> Keypair \<Rightarrow> string \<Rightarrow> submission option" where
  "part_002_submit incrementStep senderKeypair workerKeypair ident =
     map_option
       (\<lambda>instruction. \<lparr>transaction = [instruction], signers = [senderKeypair]\<rparr>)
       (incrementStep (publicKey senderKeypair) (publicKey workerKeypair) ident)"

section \<open>Little-endian bytes of a word\<close>

lemma byte_step:
  "(ucast (ucast w :: 8 word) :: 'a::len word) OR push_bit 8 (drop_bit 8 w) = w"
proof (rule bit_word_eqI)
  fix n assume len: "n < LENGTH('a)"
  show "bit (ucast (ucast w :: 8 word) OR push_bit 8 (drop_bit 8 w)) n = bit w n"
  proof (cases "n < 8")
    case True
    with len show ?thesis by (simp add: bit_simps)
  next
    case False
    then have "8 + (n - 8) = n" by simp
    with False len show ?thesis by (simp add: bit_simps)
  qed
qed

lemma byte_step_drop:
  "(ucast (ucast (drop_bit k w) :: 8 word) :: 'a::len word) OR push_bit 8 (drop_bit (8 + k) w)
     = drop_bit k w"
  using byte_step [of "drop_bit k w"] by (simp add: drop_bit_drop_bit)

lemma decode_encode_u32: "decode_u32 (encode_u32 v) = v"
proof -
  have "decode_u32 (encode_u32 v) =
     ucast (ucast (drop_bit 0 v) :: 8 word) OR push_bit 8 (
     ucast (ucast (drop_bit 8 v) :: 8 word) OR push_bit 8 (
     ucast (ucast (drop_bit 16 v) :: 8 word) OR push_bit 8 (
     ucast (ucast (drop_bit 24 v) :: 8 word) OR push_bit 8 (drop_bit 32 v))))"
    by (simp add: encode_u32_def decode_u32_def upt_rec drop_bit_word_beyond)
  also have "\<dots> = v"
    using byte_step_drop [of 24 v] byte_step_drop [of 16 v]
      byte_step_drop [of 8 v] byte_step_drop [of 0 v]
    by simp
  finally show ?thesis .
qed

lemma decode_encode_u64: "decode_u64 (encode_u64 v) = v"
proof -
  have "decode_u64 (encode_u64 v) =
     ucast (ucast (drop_bit 0 v) :: 8 word) OR push_bit 8 (
     ucast (ucast (drop_bit 8 v) :: 8 word) OR push_bit 8 (
     ucast (ucast (drop_bit 16 v) :: 8 word) OR push_bit 8 (
     ucast (ucast (drop_bit 24 v) :: 8 word) OR push_bit 8 (
     ucast (ucast (drop_bit 32 v) :: 8 word) OR push_bit 8 (
     ucast (ucast (drop_bit 40 v) :: 8 word) OR push_bit 8 (
     ucast (ucast (drop_bit 48 v) :: 8 word) OR push_bit 8 (
     ucast (ucast (drop_bit 56 v) :: 8 word) OR push_bit 8 (drop_bit 64 v))))))))"
    by (simp add: encode_u64_def decode_u64_def upt_rec drop_bit_word_beyond)
  also have "\<dots> = v"
    using byte_step_drop [of 56 v] byte_step_drop [of 48 v]
      byte_step_drop [of 40 v] byte_step_drop [of 32 v]
      byte_step_drop [of 24 v] byte_step_drop [of 16 v]
      byte_step_drop [of 8 v] byte_step_drop [of 0 v]
    by simp
  finally show ?thesis .
qed

lemma length_encode_u32: "length (encode_u32 v) = 4"
  by (simp add: encode_u32_def)

lemma length_encode_u64: "length (encode_u64 v) = 8"
  by (simp add: encode_u64_def)

lemma char_of_byte_of_char: "char_of_byte (byte_of_char c) = c"
  by (simp add: char_of_byte_def byte_of_char_def unat_of_nat)

lemma map_char_of_byte_of_char: "map char_of_byte (map byte_of_char s) = s"
  by (induction s) (simp_all add: char_of_byte_of_char)

lemma length_encode_string: "length (encode_string s) = 4 + length s"
  by (simp add: encode_string_def Let_def length_encode_u32)

lemma length_serialize: "length (serialize v) = 13 + length (id_str v)"
  by (simp add: serialize_def encode_u8_def length_encode_string length_encode_u64)

section \<open>Encoding and decoding\<close>

lemma unat_length32: "n < 2 ^ 32 \<Longrightarrow> unat (of_nat n :: 32 word) = n"
  by (simp add: unat_of_nat)

lemma serialize_bytes:
  "serialize v =
     variant v # (encode_u32 (of_nat (length (id_str v))) @ map byte_of_char (id_str v)
       @ encode_u64 (number v))"
  by (simp add: serialize_def encode_u8_def encode_string_def Let_def)

lemma deserialize_serialize:
  assumes "length (id_str v) < 2 ^ 32"
  shows "deserialize (serialize v) = Some v"
proof -
  have n: "unat (decode_u32 (encode_u32 (of_nat (length (id_str v))))) = length (id_str v)"
    using assms by (simp add: decode_encode_u32 unat_length32)
  show ?thesis
    unfolding serialize_bytes deserialize_def
    by (simp add: length_encode_u32 length_encode_u64 n Let_def decode_encode_u64
        comp_def char_of_byte_of_char)
qed

lemma byte_of_char_inj: "map byte_of_char s = map byte_of_char t \<Longrightarrow> s = t"
  using map_char_of_byte_of_char by metis

lemma encode_u64_inj: "encode_u64 a = encode_u64 b \<Longrightarrow> a = b"
  using decode_encode_u64 by metis

lemma serialize_inj:
  assumes "serialize v = serialize v'"
  shows "v = v'"
proof -
  have "length (serialize v) = length (serialize v')" using assms by simp
  then have len: "length (id_str v) = length (id_str v')"
    by (simp add: length_serialize)
  from assms have tag: "variant v = variant v'"
    and rest: "encode_string (id_str v) @ encode_u64 (number v)
        = encode_string (id_str v') @ encode_u64 (number v')"
    by (simp_all add: serialize_def encode_u8_def)
  from rest len have s: "encode_string (id_str v) = encode_string (id_str v')"
    and n: "encode_u64 (number v) = encode_u64 (number v')"
    by (simp_all add: length_encode_string)
  from s len have "map byte_of_char (id_str v) = map byte_of_char (id_str v')"
    by (simp add: encode_string_def Let_def)
  then have "id_str v = id_str v'" by (rule byte_of_char_inj)
  moreover from n have "number v = number v'" by (rule encode_u64_inj)
  ultimately show ?thesis using tag by simp
qed

lemma drop_payload:
  assumes "length e = 4"
  shows "drop (5 + length m) (d # e @ m @ r) = r"
proof -
  have "5 + length m = Suc (length e + length m)" using assms by simp
  then have "drop (5 + length m) (d # e @ m @ r)
      = drop (Suc (length e + length m)) (d # e @ m @ r)"
    by (rule arg_cong)
  also have "\<dots> = r" by simp
  finally show ?thesis .
qed

lemma serialize_fixed_layout:
  "fixed_layout d s n (serialize \<lparr>variant = d, id_str = s, number = n\<rparr>)"
proof -
  have "drop (5 + length (map byte_of_char s))
      (d # encode_u32 (of_nat (length s)) @ map byte_of_char s @ encode_u64 n) = encode_u64 n"
    by (rule drop_payload) (simp add: length_encode_u32)
  then show ?thesis
    by (simp add: fixed_layout_def serialize_bytes length_encode_u32 length_encode_u64
        Buffer_from_def)
qed

lemma encode_u64_zero: "encode_u64 0 = replicate 8 0"
  by (simp add: encode_u64_def upt_rec numeral_eq_Suc)

lemma encode_u32_zero: "encode_u32 0 = [0, 0, 0, 0]"
  by (simp add: encode_u32_def upt_rec)

section \<open>The payload encoding is injective and round-trips\<close>

text \<open>
  Claim C1. For every discriminant \<open>d\<close>, identifier \<open>s\<close> and number \<open>n\<close>, encoding the
  record (one-byte variant, borsh string, u64 number) always yields a byte string, of
  \<open>13 + length s\<close> bytes; two records with the same encoding have the same three fields;
  and the decoder for this layout gives back the three fields. The four-byte count can hold
  an identifier of fewer than \<open>2 ^ 32\<close> bytes, which every string of the scripts is (a
  JavaScript string is shorter than \<open>2 ^ 30\<close> code units, of at most three bytes each).
\<close>

theorem echo_encoding_injective_roundtrip:
  "length (serialize \<lparr>variant = d, id_str = s, number = n\<rparr>) = 13 + length s
   \<and> (serialize \<lparr>variant = d, id_str = s, number = n\<rparr>
          = serialize \<lparr>variant = d', id_str = s', number = n'\<rparr>
        \<longrightarrow> d = d' \<and> s = s' \<and> n = n')
   \<and> (length s < 2 ^ 32
        \<longrightarrow> deserialize (serialize \<lparr>variant = d, id_str = s, number = n\<rparr>)
            = Some \<lparr>variant = d, id_str = s, number = n\<rparr>)"
proof (intro conjI impI)
  show "length (serialize \<lparr>variant = d, id_str = s, number = n\<rparr>) = 13 + length s"
    by (simp add: length_serialize)
next
  assume "serialize \<lparr>variant = d, id_str = s, number = n\<rparr>
          = serialize \<lparr>variant = d', id_str = s', number = n'\<rparr>"
  then have "\<lparr>variant = d, id_str = s, number = n\<rparr>
      = \<lparr>variant = d', id_str = s', number = n'\<rparr>"
    by (rule serialize_inj)
  then show "d = d'" and "s = s'" and "n = n'" by simp_all
next
  assume "length s < 2 ^ 32"
  then show "deserialize (serialize \<lparr>variant = d, id_str = s, number = n\<rparr>)
      = Some \<lparr>variant = d, id_str = s, number = n\<rparr>"
    by (simp add: deserialize_serialize)
qed

theorem echo_encoding_injective_roundtrip_witness:
  "length ''job-1'' < (2::nat) ^ 32
   \<and> serialize \<lparr>variant = 2, id_str = ''job-1'', number = 5\<rparr>
        = serialize \<lparr>variant = 2, id_str = ''job-1'', number = 5\<rparr>
   \<and> deserialize (serialize \<lparr>variant = 2, id_str = ''job-1'', number = 5\<rparr>)
        = Some \<lparr>variant = 2, id_str = ''job-1'', number = 5\<rparr>
   \<and> length (serialize \<lparr>variant = 2, id_str = ''job-1'', number = 5\<rparr>) = 18"
  using echo_encoding_injective_roundtrip [of 2 "''job-1''" 5 2 "''job-1''" 5]
  by simp

section \<open>Discriminants\<close>

text \<open>
  Claim C2. The first byte of the payload is a constant of each script, whatever the
  identifier and the quantity: the script with a quantity (create and quantity adjustment,
  lines 76 to 153 of \<^verbatim>\<open>increment-worker.ts\<close>) writes 2, the script of
  \<^verbatim>\<open>part_001\<close> (read) writes 3, and the increment-step script writes 4.
\<close>

theorem discriminants_fixed:
  "take 1 (quantity_instructionData ident quantity) = [2]
   \<and> take 1 (part_001_instructionData ident) = [3]
   \<and> take 1 (increment_worker_instructionData ident) = [4]"
  by (simp add: quantity_instructionData_def part_001_instructionData_def
      increment_worker_instructionData_def serialize_bytes)

section \<open>Layout of the payload\<close>

text \<open>
  Claim C3. The payload of each of the three scripts has the fixed layout: one byte with
  the discriminant, then the length-prefixed identifier, then the 64-bit number in eight
  bytes, in that order and with nothing else.
\<close>

theorem payload_fixed_layout:
  "fixed_layout 4 ident 0 (increment_worker_instructionData ident)
   \<and> fixed_layout 2 ident quantity (quantity_instructionData ident quantity)
   \<and> fixed_layout 3 ident 0 (part_001_instructionData ident)"
  by (simp add: quantity_instructionData_def part_001_instructionData_def
      increment_worker_instructionData_def serialize_fixed_layout)

section \<open>The create scenario\<close>

text \<open>
  Claim C4. For initiator \<open>A\<close>, counterparty \<open>B\<close>, identifier \<^verbatim>\<open>"job-1"\<close> and quantity 5,
  once the library has derived the address, the script with a quantity builds an instruction
  whose payload decodes to discriminant 2, identifier \<^verbatim>\<open>"job-1"\<close> and number 5, and whose
  account list is: \<open>A\<close> as signer and writable, \<open>B\<close> as read-only non-signer, the derived
  address as writable non-signer (and then the system program, read-only non-signer).
\<close>

theorem create_scenario:
  assumes "fpa [toBuffer (publicKey A), toBuffer (publicKey B), Buffer_from ''job-1''] programId
             = Some (derived, bump)"
  shows "\<exists>instruction.
           quantity_instruction fpa A B ''job-1'' 5 = Some instruction
           \<and> deserialize (data instruction)
               = Some \<lparr>variant = 2, id_str = ''job-1'', number = 5\<rparr>
           \<and> keys instruction =
               [\<lparr>pubkey = publicKey A, isSigner = True, isWritable = True\<rparr>,
                \<lparr>pubkey = publicKey B, isSigner = False, isWritable = False\<rparr>,
                \<lparr>pubkey = derived, isSigner = False, isWritable = True\<rparr>,
                \<lparr>pubkey = SystemProgram_programId, isSigner = False, isWritable = False\<rparr>]"
proof -
  have "deserialize (serialize \<lparr>variant = 2, id_str = ''job-1'', number = 5\<rparr>)
      = Some \<lparr>variant = 2, id_str = ''job-1'', number = 5\<rparr>"
    by (rule deserialize_serialize) simp
  then show ?thesis
    using assms
    by (simp add: quantity_instruction_def quantity_pda_def quantity_instructionData_def)
qed

theorem create_scenario_witness:
  "\<exists>instruction.
      quantity_instruction (\<lambda>seeds prog. Some (PublicKey (concat seeds), 255))
        \<lparr>publicKey = PublicKey [1], secretKey = [10]\<rparr>
        \<lparr>publicKey = PublicKey [2], secretKey = [20]\<rparr> ''job-1'' 5 = Some instruction
      \<and> deserialize (data instruction) = Some \<lparr>variant = 2, id_str = ''job-1'', number = 5\<rparr>
      \<and> map isSigner (keys instruction) = [True, False, False, False]
      \<and> map isWritable (keys instruction) = [True, False, True, False]"
proof -
  let ?fpa = "\<lambda>(seeds :: byte list list) (prog :: PublicKey).
     Some (PublicKey (concat seeds), 255 :: nat)"
  let ?A = "\<lparr>publicKey = PublicKey [1], secretKey = [10]\<rparr>"
  let ?B = "\<lparr>publicKey = PublicKey [2], secretKey = [20]\<rparr>"
  let ?D = "PublicKey (concat [toBuffer (publicKey ?A), toBuffer (publicKey ?B),
      Buffer_from ''job-1''])"
  have h: "?fpa [toBuffer (publicKey ?A), toBuffer (publicKey ?B), Buffer_from ''job-1'']
      programId = Some (?D, 255)"
    by simp
  from create_scenario [of ?fpa ?A ?B ?D 255, OF h] show ?thesis by auto
qed

section \<open>The derived address\<close>

text \<open>
  Claim C5. The derived address is a function of the initiator's public key, the
  counterparty's public key, the identifier and the fixed program identifier, and of nothing
  else: two evaluations on keypairs with the same public keys (whatever their secret keys)
  and the same identifier give the same result, in each of the three scripts.
\<close>

theorem derived_address_deterministic:
  assumes "publicKey senderKeypair = publicKey senderKeypair'"
    and "publicKey workerKeypair = publicKey workerKeypair'"
    and "ident = ident'"
  shows "increment_worker_pda_contract fpa senderKeypair workerKeypair ident
           = increment_worker_pda_contract fpa senderKeypair' workerKeypair' ident'
       \<and> quantity_pda fpa senderKeypair workerKeypair ident
           = quantity_pda fpa senderKeypair' workerKeypair' ident'
       \<and> part_001_pda fpa senderKeypair workerKeypair ident
           = part_001_pda fpa senderKeypair' workerKeypair' ident'"
  using assms
  by (simp add: increment_worker_pda_contract_def quantity_pda_def part_001_pda_def)

theorem derived_address_deterministic_witness:
  "increment_worker_pda_contract (\<lambda>seeds prog. Some (PublicKey (concat seeds), 255))
      \<lparr>publicKey = PublicKey [1], secretKey = [10]\<rparr>
      \<lparr>publicKey = PublicKey [2], secretKey = [20]\<rparr> ''job-1''
   = increment_worker_pda_contract (\<lambda>seeds prog. Some (PublicKey (concat seeds), 255))
      \<lparr>publicKey = PublicKey [1], secretKey = [11]\<rparr>
      \<lparr>publicKey = PublicKey [2], secretKey = [21]\<rparr> ''job-1''"
  using derived_address_deterministic
    [of "\<lparr>publicKey = PublicKey [1], secretKey = [10]\<rparr>"
        "\<lparr>publicKey = PublicKey [1], secretKey = [11]\<rparr>"
        "\<lparr>publicKey = PublicKey [2], secretKey = [20]\<rparr>"
        "\<lparr>publicKey = PublicKey [2], secretKey = [21]\<rparr>"
        "''job-1''" "''job-1''"
        "\<lambda>seeds prog. Some (PublicKey (concat seeds), 255)"]
  by simp

text \<open>
  Claim C6. For the same initiator, counterparty and identifier, the derivation of the script
  with a quantity, of the increment-step script and of the read script give the same address.
\<close>

theorem same_address_in_all_scripts:
  "quantity_pda fpa senderKeypair workerKeypair ident
     = increment_worker_pda_contract fpa senderKeypair workerKeypair ident
   \<and> part_001_pda fpa senderKeypair workerKeypair ident
     = increment_worker_pda_contract fpa senderKeypair workerKeypair ident"
  by (simp add: quantity_pda_def increment_worker_pda_contract_def part_001_pda_def)

section \<open>The empty identifier\<close>

text \<open>
  Claim C8. With the empty identifier the payload is still produced: the tag, the four zero
  bytes of the count, the eight bytes of the number (thirteen bytes in all, written out for
  the three scripts); and it decodes to the same record. The derivation hands the library
  the two key buffers and an empty third seed and adds no failure of its own; with the
  hashing scheme of the spec the result is an address, the hash of the two keys and the
  program's address.
\<close>

theorem empty_identifier:
  "serialize \<lparr>variant = d, id_str = '''', number = n\<rparr> = d # [0, 0, 0, 0] @ encode_u64 n
   \<and> deserialize (serialize \<lparr>variant = d, id_str = '''', number = n\<rparr>)
       = Some \<lparr>variant = d, id_str = '''', number = n\<rparr>
   \<and> increment_worker_instructionData '''' = [4, 0, 0, 0, 0, 0, 0, 0, 0, 0, 0, 0, 0]
   \<and> part_001_instructionData '''' = [3, 0, 0, 0, 0, 0, 0, 0, 0, 0, 0, 0, 0]
   \<and> quantity_instructionData '''' n = 2 # [0, 0, 0, 0] @ encode_u64 n
   \<and> increment_worker_pda_contract fpa senderKeypair workerKeypair ''''
       = map_option fst
           (fpa [toBuffer (publicKey senderKeypair), toBuffer (publicKey workerKeypair), []]
              programId)
   \<and> quantity_pda fpa senderKeypair workerKeypair ''''
       = map_option fst
           (fpa [toBuffer (publicKey senderKeypair), toBuffer (publicKey workerKeypair), []]
              programId)
   \<and> part_001_pda fpa senderKeypair workerKeypair ''''
       = map_option fst
           (fpa [toBuffer (publicKey senderKeypair), toBuffer (publicKey workerKeypair), []]
              programId)
   \<and> increment_worker_pda_contract (findProgramAddressSync_spec H)
         senderKeypair workerKeypair ''''
       = Some (fst (H (toBuffer (publicKey senderKeypair) @ toBuffer (publicKey workerKeypair)
            @ toBuffer programId)))
   \<and> quantity_pda (findProgramAddressSync_spec H) senderKeypair workerKeypair ''''
       = Some (fst (H (toBuffer (publicKey senderKeypair) @ toBuffer (publicKey workerKeypair)
            @ toBuffer programId)))
   \<and> part_001_pda (findProgramAddressSync_spec H) senderKeypair workerKeypair ''''
       = Some (fst (H (toBuffer (publicKey senderKeypair) @ toBuffer (publicKey workerKeypair)
            @ toBuffer programId)))"
proof -
  have "deserialize (serialize \<lparr>variant = d, id_str = '''', number = n\<rparr>)
       = Some \<lparr>variant = d, id_str = '''', number = n\<rparr>"
    by (rule deserialize_serialize) simp
  then show ?thesis
    by (simp add: serialize_bytes encode_u32_zero encode_u64_zero numeral_eq_Suc
        increment_worker_instructionData_def part_001_instructionData_def
        quantity_instructionData_def
        increment_worker_pda_contract_def quantity_pda_def part_001_pda_def
        Buffer_from_def findProgramAddressSync_spec_def)
qed

section \<open>The number of the step and read payloads\<close>

text \<open>
  Claim C9. For every identifier, the increment-step script and the read script write the
  64-bit number as zero: the last eight bytes of the payload, after the tag, the count and
  the identifier, are all zero.
\<close>

theorem step_and_read_number_zero:
  "drop (5 + length ident) (increment_worker_instructionData ident) = [0, 0, 0, 0, 0, 0, 0, 0]
   \<and> drop (5 + length ident) (part_001_instructionData ident) = [0, 0, 0, 0, 0, 0, 0, 0]
   \<and> length (increment_worker_instructionData ident) = 5 + length ident + 8
   \<and> length (part_001_instructionData ident) = 5 + length ident + 8"
  using serialize_fixed_layout [of 4 ident 0] serialize_fixed_layout [of 3 ident 0]
  by (simp add: part_001_instructionData_def increment_worker_instructionData_def
      fixed_layout_def encode_u64_zero numeral_eq_Suc)

section \<open>Signers\<close>

text \<open>
  Claim C10. Whatever any of the three scripts with an inline instruction submits, the
  transaction holds one instruction, exactly one entry of its account list is marked as
  signer, namely the initiator's public key, and the array of signing keypairs is the
  initiator's keypair alone; the counterparty's entry, the second of the list, is not marked
  as signer. The two scripts over \<^verbatim>\<open>./contract-client\<close> sign with the initiator's keypair
  alone as well, whatever instruction the builder returns.
\<close>

theorem only_initiator_signs:
  "(increment_worker_submit fpa senderKeypair workerKeypair ident = Some sub
      \<or> quantity_submit fpa senderKeypair workerKeypair ident quantity = Some sub
      \<or> part_001_submit fpa senderKeypair workerKeypair ident = Some sub
    \<longrightarrow> signers sub = [senderKeypair]
       \<and> (\<exists>instruction.
            transaction sub = [instruction]
            \<and> filter isSigner (keys instruction)
                = [\<lparr>pubkey = publicKey senderKeypair, isSigner = True, isWritable = True\<rparr>]
            \<and> pubkey (keys instruction ! 1) = publicKey workerKeypair
            \<and> \<not> isSigner (keys instruction ! 1)))
   \<and> (create_contract_submit createContract senderKeypair workerKeypair ident quantity = Some sub
      \<or> part_002_submit incrementStep senderKeypair workerKeypair ident = Some sub
    \<longrightarrow> signers sub = [senderKeypair] \<and> (\<exists>instruction. transaction sub = [instruction]))"
  by (auto simp: increment_worker_submit_def increment_worker_instruction_def
      quantity_submit_def quantity_instruction_def
      part_001_submit_def part_001_instruction_def
      create_contract_submit_def part_002_submit_def)

theorem only_initiator_signs_witness:
  "(\<exists>sub.
      increment_worker_submit (\<lambda>seeds prog. Some (PublicKey (concat seeds), 255))
        \<lparr>publicKey = PublicKey [1], secretKey = [10]\<rparr>
        \<lparr>publicKey = PublicKey [2], secretKey = [20]\<rparr> ''job-1'' = Some sub
      \<and> signers sub = [\<lparr>publicKey = PublicKey [1], secretKey = [10]\<rparr>]
      \<and> (\<exists>instruction. transaction sub = [instruction]
            \<and> filter isSigner (keys instruction)
                = [\<lparr>pubkey = PublicKey [1], isSigner = True, isWritable = True\<rparr>]))
   \<and> (\<exists>sub.
      create_contract_submit
        (\<lambda>a b i q. Some \<lparr>keys = [], instr_programId = programId, data = []\<rparr>)
        \<lparr>publicKey = PublicKey [1], secretKey = [10]\<rparr>
        \<lparr>publicKey = PublicKey [2], secretKey = [20]\<rparr> ''job-1'' 5 = Some sub
      \<and> signers sub = [\<lparr>publicKey = PublicKey [1], secretKey = [10]\<rparr>])"
proof -
  let ?fpa = "\<lambda>(seeds :: byte list list) (prog :: PublicKey).
     Some (PublicKey (concat seeds), 255 :: nat)"
  let ?cc = "\<lambda>(a :: PublicKey) (b :: PublicKey) (i :: string) (q :: 64 word).
     Some \<lparr>keys = [], instr_programId = programId, data = []\<rparr>"
  let ?A = "\<lparr>publicKey = PublicKey [1], secretKey = [10]\<rparr>"
  let ?B = "\<lparr>publicKey = PublicKey [2], secretKey = [20]\<rparr>"
  obtain sub where h: "increment_worker_submit ?fpa ?A ?B ''job-1'' = Some sub"
    by (simp add: increment_worker_submit_def increment_worker_instruction_def
        increment_worker_pda_contract_def)
  obtain sub' where h': "create_contract_submit ?cc ?A ?B ''job-1'' 5 = Some sub'"
    by (simp add: create_contract_submit_def)
  have "signers sub = [?A]
       \<and> (\<exists>instruction.
            transaction sub = [instruction]
            \<and> filter isSigner (keys instruction)
                = [\<lparr>pubkey = publicKey ?A, isSigner = True, isWritable = True\<rparr>]
            \<and> pubkey (keys instruction ! 1) = publicKey ?B
            \<and> \<not> isSigner (keys instruction ! 1))"
    using only_initiator_signs [of ?fpa ?A ?B "''job-1''" sub 0 ?cc "\<lambda>a b i. None"] h
    by blast
  then have 1: "signers sub = [?A] \<and> (\<exists>instruction. transaction sub = [instruction]
            \<and> filter isSigner (keys instruction)
                = [\<lparr>pubkey = PublicKey [1], isSigner = True, isWritable = True\<rparr>])"
    by auto
  have 2: "signers sub' = [?A]"
    using only_initiator_signs [of ?fpa ?A ?B "''job-1''" sub' 5 ?cc "\<lambda>a b i. None"] h'
    by blast
  from 1 2 h h' show ?thesis by blast
qed

end
